theory Spec2Isabelle
  imports Main "HOL-Library.Word"
begin

section \<open>JavaScript values used by App.jsx\<close>

text \<open>
  A JavaScript string is a sequence of UTF-16 code units; \<open>text.length\<close> counts code
  units. \<open>js\<close> writes an ASCII literal of the source as such a sequence.
\<close>

type_synonym jsstring = "16 word list"

definition js :: "string \<Rightarrow> jsstring" where
  "js s = map (\<lambda>c. of_nat (of_char c)) s"

text \<open>
  The values an expression such as \<open>!busy && !over && text.trim()\<close> can have: a boolean
  or a string. A string is truthy when it is not empty.
\<close>

datatype jsval = JBool bool | JStr jsstring

fun truthy :: "jsval \<Rightarrow> bool" where
  "truthy (JBool b) = b"
| "truthy (JStr s) = (s \<noteq> [])"

text \<open>\<open>a && b\<close> is \<open>a\<close> when \<open>a\<close> is falsy, and \<open>b\<close> otherwise.\<close>

definition js_and :: "jsval \<Rightarrow> jsval \<Rightarrow> jsval" where
  "js_and a b = (if truthy a then b else a)"

text \<open>
  \<open>a || b\<close> where \<open>a\<close> is a string-valued property that may be missing
  (\<open>None\<close> is \<open>undefined\<close>): a missing or empty \<open>a\<close> gives \<open>b\<close>.
\<close>

definition str_or :: "jsstring option \<Rightarrow> jsstring \<Rightarrow> jsstring" where
  "str_or a b = (case a of None \<Rightarrow> b | Some x \<Rightarrow> if x = [] then b else x)"

text \<open>
  \<open>String.prototype.trim\<close> strips the code units of WhiteSpace and LineTerminator
  from both ends: TAB, LF, VT, FF, CR, SP, NBSP, U+1680, U+2000 to U+200A, U+2028,
  U+2029, U+202F, U+205F, U+3000 and U+FEFF.
\<close>

definition is_ws :: "16 word \<Rightarrow> bool" where
  "is_ws c = (c \<in> set [0x9, 0xA, 0xB, 0xC, 0xD, 0x20, 0xA0, 0x1680,
      0x2000, 0x2001, 0x2002, 0x2003, 0x2004, 0x2005, 0x2006, 0x2007, 0x2008, 0x2009, 0x200A,
      0x2028, 0x2029, 0x202F, 0x205F, 0x3000, 0xFEFF])"

definition trim :: "jsstring \<Rightarrow> jsstring" where
  "trim s = rev (dropWhile is_ws (rev (dropWhile is_ws s)))"

definition startsWith :: "jsstring \<Rightarrow> jsstring \<Rightarrow> bool" where
  "startsWith s p = (take (length p) s = p)"

section \<open>The component state\<close>

text \<open>
  A voice of the catalog, \<open>{id, languageCode, languageName, gender, supportedEngines}\<close>.
  The source guards \<open>languageCode\<close>, \<open>languageName\<close> and \<open>supportedEngines\<close> against
  being missing, so they are optional here.
\<close>

record Voice =
  id_v :: jsstring
  languageCode :: "jsstring option"
  languageName :: "jsstring option"
  gender :: "jsstring option"
  supportedEngines :: "jsstring list option"

record Language =
  code :: jsstring
  name :: jsstring

text \<open>An entry of the history, \<open>{url, voice, ts, lang, engine}\<close>.\<close>

record HistoryEntry =
  h_url :: jsstring
  h_voice :: jsstring
  h_ts :: nat
  h_lang :: jsstring
  h_engine :: jsstring

text \<open>The \<open>useState\<close> cells of \<open>App\<close>, with their initial values.\<close>

record state =
  tab :: jsstring
  voices :: "Voice list"
  languages :: "Language list"
  lang :: jsstring
  voice :: jsstring
  engine :: jsstring
  "text" :: jsstring
  busy :: bool
  error :: jsstring
  audioUrl :: jsstring
  history :: "HistoryEntry list"

definition init :: state where
  "init = \<lparr>tab = js ''synth'', voices = [], languages = [], lang = [], voice = [],
     engine = [], text = [], busy = False, error = [], audioUrl = [], history = []\<rparr>"

definition MAX_CHARS :: nat where
  "MAX_CHARS = 3000"

definition chars :: "state \<Rightarrow> nat" where
  "chars s = length (text s)"

definition over :: "state \<Rightarrow> bool" where
  "over s = (chars s > MAX_CHARS)"

text \<open>\<open>const canGo = !busy && !over && text.trim();\<close>\<close>

definition canGo :: "state \<Rightarrow> jsval" where
  "canGo s = js_and (js_and (JBool (\<not> busy s)) (JBool (\<not> over s))) (JStr (trim (text s)))"

section \<open>Loading the voice catalog\<close>

text \<open>
  What \<open>fetch(`${API}/voices`)\<close> and \<open>r.json()\<close> can give: the fetch rejects, or it
  resolves to a response with its \<open>ok\<close> flag whose body either makes the \<open>try\<close> block
  throw (\<open>BadJson\<close>: \<open>r.json()\<close> rejects because the body is not JSON, or gives
  \<open>null\<close>, on which reading \<open>d.voices\<close> throws) or is an object \<open>d\<close>, of which the code
  reads \<open>d.voices\<close> (\<open>None\<close> when missing, as in the body \<open>{}\<close>).
\<close>

datatype voices_body = BadJson | Json "Voice list option"

datatype voices_outcome = FetchFailed | Fetched bool voices_body

text \<open>
  \<open>Map.prototype.set\<close> on an insertion-ordered map: an existing key keeps its place and
  takes the new value, a new key goes to the end.
\<close>

fun map_set :: "'k \<Rightarrow> 'v \<Rightarrow> ('k \<times> 'v) list \<Rightarrow> ('k \<times> 'v) list" where
  "map_set k v [] = [(k, v)]"
| "map_set k v ((k', v') # m) = (if k' = k then (k', v) # m else (k', v') # map_set k v m)"

text \<open>
  The loop \<open>for(const v of arr){ if(!v.languageCode) continue;
  map.set(v.languageCode, v.languageName || v.languageCode); }\<close>
\<close>

definition language_map :: "Voice list \<Rightarrow> (jsstring \<times> jsstring) list" where
  "language_map arr =
     foldl (\<lambda>m v. case languageCode v of
                     None \<Rightarrow> m
                   | Some c \<Rightarrow> if c = [] then m else map_set c (str_or (languageName v) c) m)
       [] arr"

text \<open>
  \<open>Array.prototype.sort\<close> is stable. The comparison \<open>a.name.localeCompare(b.name)\<close>
  depends on the locale of the browser and is a parameter \<open>cmp\<close> of the model; an
  element goes before the first one it does not compare greater than.
\<close>

fun insert_by :: "(jsstring \<Rightarrow> jsstring \<Rightarrow> int) \<Rightarrow> Language \<Rightarrow> Language list \<Rightarrow> Language list" where
  "insert_by cmp x [] = [x]"
| "insert_by cmp x (y # ys) =
     (if cmp (name x) (name y) \<le> 0 then x # y # ys else y # insert_by cmp x ys)"

definition sort_by :: "(jsstring \<Rightarrow> jsstring \<Rightarrow> int) \<Rightarrow> Language list \<Rightarrow> Language list" where
  "sort_by cmp xs = foldr (insert_by cmp) xs []"

text \<open>
  \<open>const def = langs.find(l=>l.code.startsWith("en-")) || langs[0];
  setLang(def?.code || "");\<close>
\<close>

definition default_lang :: "Language list \<Rightarrow> jsstring" where
  "default_lang langs =
     (case find (\<lambda>l. startsWith (code l) (js ''en-'')) langs of
        Some l \<Rightarrow> code l
      | None \<Rightarrow> (case langs of [] \<Rightarrow> [] | l # _ \<Rightarrow> code l))"

text \<open>The \<open>try\<close> block of \<open>load\<close>; \<open>None\<close> when it throws.\<close>

definition load_try :: "(jsstring \<Rightarrow> jsstring \<Rightarrow> int) \<Rightarrow> voices_outcome \<Rightarrow> state \<Rightarrow> state option" where
  "load_try cmp out s =
     (case out of
        FetchFailed \<Rightarrow> None
      | Fetched ok body \<Rightarrow>
          if \<not> ok then None
          else (case body of
                  BadJson \<Rightarrow> None
                | Json vs \<Rightarrow>
                    let arr = (case vs of None \<Rightarrow> [] | Some a \<Rightarrow> a);
                        langs = sort_by cmp (map (\<lambda>(c, n). \<lparr>code = c, name = n\<rparr>) (language_map arr))
                    in Some (s\<lparr>voices := arr, languages := langs, lang := default_lang langs\<rparr>)))"

text \<open>The \<open>catch\<close> block of \<open>load\<close>: the message and the fallback catalog.\<close>

definition load_catch :: "state \<Rightarrow> state" where
  "load_catch s =
     s\<lparr>error := js ''API not configured in this demo page.'',
       voices := [\<lparr>id_v = js ''Joanna'', languageCode = Some (js ''en-US''),
                   languageName = Some (js ''US English''), gender = None,
                   supportedEngines = Some [js ''standard'', js ''neural'']\<rparr>],
       languages := [\<lparr>code = js ''en-US'', name = js ''US English''\<rparr>],
       lang := js ''en-US'',
       voice := js ''Joanna''\<rparr>"

definition load :: "(jsstring \<Rightarrow> jsstring \<Rightarrow> int) \<Rightarrow> voices_outcome \<Rightarrow> state \<Rightarrow> state" where
  "load cmp out s = (case load_try cmp out s of Some s' \<Rightarrow> s' | None \<Rightarrow> load_catch s)"

section \<open>Voice selection\<close>

text \<open>\<open>if(!lang) return voices; return voices.filter(v=>v.languageCode===lang);\<close>\<close>

definition filteredVoices :: "state \<Rightarrow> Voice list" where
  "filteredVoices s =
     (if lang s = [] then voices s
      else filter (\<lambda>v. languageCode v = Some (lang s)) (voices s))"

text \<open>\<open>v.supportedEngines?.includes("neural")\<close>\<close>

definition includes_neural :: "Voice \<Rightarrow> bool" where
  "includes_neural v =
     (case supportedEngines v of None \<Rightarrow> False | Some es \<Rightarrow> js ''neural'' \<in> set es)"

text \<open>
  The body of the effect with dependencies \<open>[lang, filteredVoices, voice]\<close>:
  \<open>if(filteredVoices.length && (!voice || !filteredVoices.find(v=>v.id===voice))){
    setVoice(filteredVoices[0].id);
    setEngine(filteredVoices[0].supportedEngines?.includes("neural") ? "neural" : ""); }\<close>
\<close>

definition defaultVoiceEffect :: "state \<Rightarrow> state" where
  "defaultVoiceEffect s =
     (case filteredVoices s of
        [] \<Rightarrow> s
      | v0 # _ \<Rightarrow>
          if voice s = [] \<or> find (\<lambda>v. id_v v = voice s) (filteredVoices s) = None
          then s\<lparr>voice := id_v v0, engine := (if includes_neural v0 then js ''neural'' else [])\<rparr>
          else s)"

text \<open>The state setters the select handlers call.\<close>

definition setLang :: "jsstring \<Rightarrow> state \<Rightarrow> state" where
  "setLang c s = s\<lparr>lang := c\<rparr>"

definition setVoice :: "jsstring \<Rightarrow> state \<Rightarrow> state" where
  "setVoice v s = s\<lparr>voice := v\<rparr>"

definition setEngine :: "jsstring \<Rightarrow> state \<Rightarrow> state" where
  "setEngine e s = s\<lparr>engine := e\<rparr>"

text \<open>
  The language select, \<open>onChange={e=>setLang(e.target.value)}\<close>, followed by the effect
  that the changed \<open>lang\<close> triggers. This is the spec's \<open>setLanguage(code)\<close> with its repair.
\<close>

definition setLanguage :: "jsstring \<Rightarrow> state \<Rightarrow> state" where
  "setLanguage c s = defaultVoiceEffect (setLang c s)"

text \<open>
  The voice select, \<open>onChange={e=>setVoice(e.target.value)}\<close>, followed by the effect
  that the changed \<open>voice\<close> triggers.
\<close>

definition selectVoice :: "jsstring \<Rightarrow> state \<Rightarrow> state" where
  "selectVoice v s = defaultVoiceEffect (setVoice v s)"

text \<open>
  The engine select offers \<open>"neural"\<close> only under
  \<open>filteredVoices.find(v=>v.id===voice)?.supportedEngines?.includes("neural")\<close>.
\<close>

definition neural_offered :: "state \<Rightarrow> bool" where
  "neural_offered s =
     (case find (\<lambda>v. id_v v = voice s) (filteredVoices s) of
        None \<Rightarrow> False
      | Some v \<Rightarrow> includes_neural v)"

definition clearAll :: "state \<Rightarrow> state" where
  "clearAll s = s\<lparr>text := [], audioUrl := [], error := []\<rparr>"

section \<open>Synthesis\<close>

text \<open>
  What the \<open>try\<close> block of \<open>synth\<close> can meet: \<open>fetch\<close> or \<open>r.json()\<close> rejects with an
  error whose \<open>message\<close> is given, or a response arrives with its \<open>ok\<close> flag and a body
  \<open>d\<close> of which the code reads \<open>d.url\<close> and \<open>d.error\<close> (\<open>None\<close> when missing).
\<close>

datatype synth_outcome = Threw jsstring | Replied bool "jsstring option" "jsstring option"

text \<open>
  The request body, an object with its keys in insertion order:
  \<open>const payload = { text, voice }; if(engine) payload.engine = engine;\<close>
\<close>

type_synonym payload = "(string \<times> jsstring) list"

definition build_payload :: "state \<Rightarrow> payload" where
  "build_payload s =
     [(''text'', text s), (''voice'', voice s)]
     @ (if engine s \<noteq> [] then [(''engine'', engine s)] else [])"

text \<open>
  The synchronous start of \<open>synth\<close>: \<open>if(!canGo) return;
  setBusy(true); setError(""); setAudioUrl("");\<close> and the request that is sent.
  \<open>None\<close> is the early return: nothing is sent and no state changes.
\<close>

definition synth_begin :: "state \<Rightarrow> (payload \<times> state) option" where
  "synth_begin s =
     (if \<not> truthy (canGo s) then None
      else Some (build_payload s, s\<lparr>busy := True, error := [], audioUrl := []\<rparr>))"

text \<open>
  The rest of the \<open>try\<close> block, after the awaits. \<open>c\<close> is the state of the render whose
  \<open>synth\<close> closure is running (it fixes \<open>voice\<close>, \<open>lang\<close> and \<open>engine\<close>), \<open>s\<close> the
  state when the response arrives, \<open>now\<close> the value of \<open>Date.now()\<close>. \<open>Inl\<close> is a throw,
  with the message of the error thrown. \<open>str_or u [] = []\<close> is \<open>!d.url\<close>: the url is
  missing or empty; otherwise \<open>str_or u []\<close> is the url.
\<close>

definition synth_try :: "state \<Rightarrow> nat \<Rightarrow> synth_outcome \<Rightarrow> state \<Rightarrow> jsstring + state" where
  "synth_try c now out s =
     (case out of
        Threw m \<Rightarrow> Inl m
      | Replied ok u e \<Rightarrow>
          if \<not> ok \<or> str_or u [] = [] then Inl (str_or e (js ''Synthesis failed''))
          else Inr (s\<lparr>audioUrl := str_or u [],
                      history := take 6 (\<lparr>h_url = str_or u [], h_voice = voice c, h_ts = now,
                                           h_lang = lang c, h_engine = engine c\<rparr> # history s)\<rparr>))"

text \<open>
  \<open>catch(err){ setError(err.message || "Failed to synthesize"); }
  finally{ setBusy(false); }\<close>
\<close>

definition synth_settle :: "state \<Rightarrow> nat \<Rightarrow> synth_outcome \<Rightarrow> state \<Rightarrow> state" where
  "synth_settle c now out s =
     (case synth_try c now out s of
        Inl m \<Rightarrow> s\<lparr>error := str_or (Some m) (js ''Failed to synthesize''), busy := False\<rparr>
      | Inr s' \<Rightarrow> s'\<lparr>busy := False\<rparr>)"

text \<open>
  One whole run of \<open>synth\<close> with nothing else happening in between: the final state and
  the request sent to \<open>/synthesize\<close>, if any.
\<close>

definition synth :: "state \<Rightarrow> nat \<Rightarrow> synth_outcome \<Rightarrow> state \<times> payload option" where
  "synth s now out =
     (case synth_begin s of
        None \<Rightarrow> (s, None)
      | Some (p, s1) \<Rightarrow> (synth_settle s now out s1, Some p))"




section \<open>The running component\<close>

text \<open>
  The component between events: its state, and the render state captured by the
  \<open>synth\<close> call that is waiting for its response, if one is.
\<close>

record app =
  cur :: state
  pending :: "state option"

datatype event =
    Loaded voices_outcome
  | ChangeTab jsstring
  | ChangeLang jsstring
  | ChangeVoice jsstring
  | ChangeEngine jsstring
  | ChangeText jsstring
  | ClearAll
  | Submit
  | Settled nat synth_outcome

text \<open>
  One event. A setter called with the value the cell already holds does not render
  again, so the effect does not run; the effect runs after the events that change one
  of its dependencies.
\<close>

fun step :: "(jsstring \<Rightarrow> jsstring \<Rightarrow> int) \<Rightarrow> event \<Rightarrow> app \<Rightarrow> app" where
  "step cmp (Loaded out) a = a\<lparr>cur := defaultVoiceEffect (load cmp out (cur a))\<rparr>"
| "step cmp (ChangeTab t) a = a\<lparr>cur := (cur a)\<lparr>tab := t\<rparr>\<rparr>"
| "step cmp (ChangeLang c) a =
     (if c = lang (cur a) then a else a\<lparr>cur := setLanguage c (cur a)\<rparr>)"
| "step cmp (ChangeVoice v) a =
     (if v = voice (cur a) then a else a\<lparr>cur := selectVoice v (cur a)\<rparr>)"
| "step cmp (ChangeEngine e) a = a\<lparr>cur := setEngine e (cur a)\<rparr>"
| "step cmp (ChangeText t) a = a\<lparr>cur := (cur a)\<lparr>text := t\<rparr>\<rparr>"
| "step cmp ClearAll a = a\<lparr>cur := clearAll (cur a)\<rparr>"
| "step cmp Submit a =
     (case synth_begin (cur a) of
        None \<Rightarrow> a
      | Some (p, s1) \<Rightarrow> \<lparr>cur = s1, pending = Some (cur a)\<rparr>)"
| "step cmp (Settled now out) a =
     (case pending a of
        None \<Rightarrow> a
      | Some c \<Rightarrow> \<lparr>cur = synth_settle c now out (cur a), pending = None\<rparr>)"

definition mount :: app where
  "mount = \<lparr>cur = init, pending = None\<rparr>"

definition run :: "(jsstring \<Rightarrow> jsstring \<Rightarrow> int) \<Rightarrow> event list \<Rightarrow> app \<Rightarrow> app" where
  "run cmp evs a = foldl (\<lambda>a ev. step cmp ev a) a evs"

section \<open>Example data\<close>

text \<open>A comparison by code units, standing for \<open>localeCompare\<close> in the examples.\<close>

fun ordinal_cmp :: "jsstring \<Rightarrow> jsstring \<Rightarrow> int" where
  "ordinal_cmp [] [] = 0"
| "ordinal_cmp [] (y # ys) = - 1"
| "ordinal_cmp (x # xs) [] = 1"
| "ordinal_cmp (x # xs) (y # ys) =
     (if x < y then - 1 else if y < x then 1 else ordinal_cmp xs ys)"

definition Joanna :: Voice where
  "Joanna = \<lparr>id_v = js ''Joanna'', languageCode = Some (js ''en-US''),
     languageName = Some (js ''US English''), gender = None,
     supportedEngines = Some [js ''standard'', js ''neural'']\<rparr>"

definition Joey :: Voice where
  "Joey = \<lparr>id_v = js ''Joey'', languageCode = Some (js ''en-US''),
     languageName = Some (js ''US English''), gender = Some (js ''Male''),
     supportedEngines = Some [js ''standard'']\<rparr>"

definition Celine :: Voice where
  "Celine = \<lparr>id_v = js ''Celine'', languageCode = Some (js ''fr-FR''),
     languageName = Some (js ''French''), gender = Some (js ''Female''),
     supportedEngines = Some [js ''standard'']\<rparr>"

text \<open>The state once a catalog has arrived and the effect has run.\<close>

definition loaded :: "Voice list \<Rightarrow> state" where
  "loaded vs = cur (run ordinal_cmp [Loaded (Fetched True (Json (Some vs)))] mount)"

text \<open>
  A catalog of two US English voices arrives, of which the first supports the neural
  engine and the second does not; then the user picks the second in the voice select.
\<close>

definition override_trace :: "event list" where
  "override_trace =
     [Loaded (Fetched True (Json (Some [Joanna, Joey]))), ChangeVoice (js ''Joey'')]"

text \<open>A catalog arrives, the user types \<open>Hello\<close>, submits, and the service replies with a url.\<close>

definition hello_trace :: "event list" where
  "hello_trace =
     [Loaded (Fetched True (Json (Some [Joanna]))), ChangeText (js ''Hello''), Submit,
      Settled 1700000000000 (Replied True (Some (js ''https://x/a.mp3'')) None)]"

section \<open>Submit gating\<close>

lemma trim_empty_iff: "trim s = [] \<longleftrightarrow> (\<forall>c \<in> set s. is_ws c)"
proof -
  have "trim s = [] \<longleftrightarrow> dropWhile is_ws (rev (dropWhile is_ws s)) = []"
    by (simp add: trim_def)
  also have "\<dots> \<longleftrightarrow> (\<forall>c \<in> set (dropWhile is_ws s). is_ws c)"
    by simp
  also have "\<dots> \<longleftrightarrow> dropWhile is_ws s = []"
  proof
    assume a: "\<forall>c \<in> set (dropWhile is_ws s). is_ws c"
    show "dropWhile is_ws s = []"
    proof (cases "dropWhile is_ws s")
      case Nil
      then show ?thesis .
    next
      case (Cons x xs)
      then have "\<not> is_ws x" using hd_dropWhile [of is_ws s] by simp
      moreover have "is_ws x" using a Cons by simp
      ultimately show ?thesis by simp
    qed
  next
    assume "dropWhile is_ws s = []"
    then show "\<forall>c \<in> set (dropWhile is_ws s). is_ws c"
      by (simp only: set_simps ball_empty)
  qed
  also have "\<dots> \<longleftrightarrow> (\<forall>c \<in> set s. is_ws c)"
    by simp
  finally show ?thesis .
qed

lemma truthy_canGo:
  "truthy (canGo s) \<longleftrightarrow> \<not> busy s \<and> length (text s) \<le> MAX_CHARS \<and> trim (text s) \<noteq> []"
  by (auto simp: canGo_def js_and_def over_def chars_def)

lemma busy_synth_settle: "\<not> busy (synth_settle c now out s)"
  by (simp add: synth_settle_def split: sum.splits)

lemma synth_allowed:
  "truthy (canGo s) \<Longrightarrow>
   synth s now out = (synth_settle s now out (s\<lparr>busy := True, error := [], audioUrl := []\<rparr>),
                      Some (build_payload s))"
  by (simp add: synth_def synth_begin_def)

lemma synth_blocked: "\<not> truthy (canGo s) \<Longrightarrow> synth s now out = (s, None)"
  by (simp add: synth_def synth_begin_def)

lemma trim_replicate: "0 < n \<Longrightarrow> \<not> is_ws c \<Longrightarrow> trim (replicate n c) \<noteq> []"
  by (simp add: trim_empty_iff)

lemma filteredVoices_setLang:
  "c \<noteq> [] \<Longrightarrow> filteredVoices (setLang c s) = filter (\<lambda>v. languageCode v = Some c) (voices s)"
  by (simp add: filteredVoices_def setLang_def)

lemma defaultVoiceEffect_keeps:
  "filteredVoices s = [] \<Longrightarrow> defaultVoiceEffect s = s"
  by (simp add: defaultVoiceEffect_def)

lemma defaultVoiceEffect_member:
  assumes "filteredVoices s \<noteq> []"
  shows "\<exists>v \<in> set (filteredVoices s). id_v v = voice (defaultVoiceEffect s)"
proof (cases "filteredVoices s")
  case Nil
  with assms show ?thesis by simp
next
  case (Cons v0 vs)
  show ?thesis
  proof (cases "voice s = [] \<or> find (\<lambda>v. id_v v = voice s) (filteredVoices s) = None")
    case True
    then have "voice (defaultVoiceEffect s) = id_v v0"
      using Cons by (auto simp: defaultVoiceEffect_def)
    then show ?thesis using Cons by auto
  next
    case False
    then have same: "defaultVoiceEffect s = s"
      using Cons by (auto simp: defaultVoiceEffect_def)
    from False obtain v where "find (\<lambda>v. id_v v = voice s) (filteredVoices s) = Some v"
      by auto
    then have "v \<in> set (filteredVoices s) \<and> id_v v = voice s"
      by (auto simp: find_Some_iff)
    then show ?thesis using same by auto
  qed
qed

lemma find_id_None:
  "find (\<lambda>v. id_v v = x) xs = None \<longleftrightarrow> x \<notin> id_v ` set xs"
  by (auto simp: find_None_iff)

lemma js_eq_Nil: "js s = [] \<longleftrightarrow> s = []"
  by (simp add: js_def)



lemma history_defaultVoiceEffect: "history (defaultVoiceEffect s) = history s"
  by (simp add: defaultVoiceEffect_def split: list.splits)

lemma history_load: "history (load cmp out s) = history s"
  by (simp add: load_def load_try_def load_catch_def Let_def
      split: voices_outcome.splits voices_body.splits)

lemma history_synth_begin: "synth_begin s = Some (p, s1) \<Longrightarrow> history s1 = history s"
  by (auto simp: synth_begin_def split: if_splits)

lemma history_synth_settle_success:
  "u \<noteq> [] \<Longrightarrow>
   history (synth_settle c now (Replied True (Some u) e) s)
     = take 6 (\<lparr>h_url = u, h_voice = voice c, h_ts = now, h_lang = lang c, h_engine = engine c\<rparr>
               # history s)"
  by (simp add: synth_settle_def synth_try_def str_or_def)

lemma history_synth_settle_bound:
  "length (history s) \<le> 6 \<Longrightarrow> length (history (synth_settle c now out s)) \<le> 6"
  by (simp add: synth_settle_def synth_try_def split: synth_outcome.splits)

lemma history_step_bound:
  assumes "length (history (cur a)) \<le> 6"
  shows "length (history (cur (step cmp ev a))) \<le> 6"
proof (cases ev)
  case Submit
  then show ?thesis
    using assms by (auto simp: history_synth_begin split: option.splits)
next
  case (Settled now out)
  then show ?thesis
    using assms by (auto simp: history_synth_settle_bound split: option.splits)
qed (use assms in \<open>simp_all add: history_defaultVoiceEffect history_load setLanguage_def
      setLang_def selectVoice_def setVoice_def setEngine_def clearAll_def\<close>)

lemma history_run_bound:
  "length (history (cur a)) \<le> 6 \<Longrightarrow> length (history (cur (run cmp evs a))) \<le> 6"
proof (induction evs arbitrary: a)
  case Nil
  then show ?case by (simp add: run_def)
next
  case (Cons ev evs)
  from Cons.prems have "length (history (cur (step cmp ev a))) \<le> 6"
    by (rule history_step_bound)
  then have "length (history (cur (run cmp evs (step cmp ev a)))) \<le> 6"
    by (rule Cons.IH)
  then show ?case by (simp add: run_def)
qed

lemmas ex_defs = loaded_def run_def mount_def init_def load_def load_try_def load_catch_def
  language_map_def sort_by_def default_lang_def startsWith_def str_or_def
  defaultVoiceEffect_def filteredVoices_def includes_neural_def Joanna_def Joey_def Celine_def
  js_def setLanguage_def setLang_def selectVoice_def setVoice_def

text \<open>
  C1. The spec's \<open>canSubmit\<close> is \<open>canGo\<close>. As the code computes it, it is truthy exactly
  when the controller is not busy, the text has at most \<open>MAX_CHARS\<close> code units and the
  trimmed text is not empty. The selected voice does not enter: the claim's fourth
  condition, that a voice is selected, is not part of \<open>canGo\<close>.
\<close>

theorem canGo_ignores_voice:
  "truthy (canGo s) \<longleftrightarrow> \<not> busy s \<and> length (text s) \<le> MAX_CHARS \<and> trim (text s) \<noteq> []"
  by (rule truthy_canGo)

theorem canGo_ignores_voice_witness:
  "truthy (canGo (init\<lparr>text := js ''Hello''\<rparr>))"
  using canGo_ignores_voice [of "init\<lparr>text := js ''Hello''\<rparr>"]
  by (simp add: init_def js_def MAX_CHARS_def trim_def is_ws_def)

text \<open>
  C1 as stated fails in the initial state once \<open>Hello\<close> is typed: no voice is selected
  and \<open>canGo\<close> is truthy.
\<close>

theorem canGo_no_voice_counterexample:
  "\<not> (truthy (canGo (init\<lparr>text := js ''Hello''\<rparr>)) \<longleftrightarrow>
        \<not> busy (init\<lparr>text := js ''Hello''\<rparr>)
        \<and> length (text (init\<lparr>text := js ''Hello''\<rparr>)) \<le> MAX_CHARS
        \<and> trim (text (init\<lparr>text := js ''Hello''\<rparr>)) \<noteq> []
        \<and> voice (init\<lparr>text := js ''Hello''\<rparr>) \<noteq> [])"
  by (simp add: truthy_canGo init_def js_def MAX_CHARS_def trim_def is_ws_def)

text \<open>
  C5. Whatever the outcome of a submission (a reply with success status and a url, a
  reply with a failure status, a reply without url, a body that does not parse or a
  rejected fetch, the last two being \<open>Threw\<close>), \<open>busy\<close> is false once it has settled:
  for the settling step alone from any state, for a whole run of \<open>synth\<close> that passed
  the guard, and for the running component with a request pending.
\<close>

theorem synth_clears_busy:
  "\<not> busy (synth_settle c now out s1)
   \<and> (truthy (canGo s) \<longrightarrow> \<not> busy (fst (synth s now out)))
   \<and> (pending a \<noteq> None \<longrightarrow> \<not> busy (cur (step cmp (Settled now out) a)))"
  by (auto simp: busy_synth_settle synth_allowed)

theorem synth_clears_busy_witness:
  "\<not> busy (fst (synth (init\<lparr>text := js ''Hello''\<rparr>) 0 (Threw (js ''Failed to fetch''))))
   \<and> \<not> busy (cur (step ordinal_cmp (Settled 0 (Replied False None None))
                 (step ordinal_cmp Submit \<lparr>cur = init\<lparr>text := js ''Hello''\<rparr>, pending = None\<rparr>)))"
  using synth_clears_busy [of "init\<lparr>text := js ''Hello''\<rparr>" 0 "Threw (js ''Failed to fetch'')"
      "init\<lparr>text := js ''Hello''\<rparr>" "init\<lparr>text := js ''Hello''\<rparr>"
      "step ordinal_cmp Submit \<lparr>cur = init\<lparr>text := js ''Hello''\<rparr>, pending = None\<rparr>" ordinal_cmp]
    synth_clears_busy [of "init\<lparr>text := js ''Hello''\<rparr>" 0 "Replied False None None"
      "init\<lparr>text := js ''Hello''\<rparr>" "init\<lparr>text := js ''Hello''\<rparr>"
      "step ordinal_cmp Submit \<lparr>cur = init\<lparr>text := js ''Hello''\<rparr>, pending = None\<rparr>" ordinal_cmp]
  by (simp add: truthy_canGo synth_begin_def init_def js_def MAX_CHARS_def trim_def is_ws_def)

text \<open>
  C8. A submission that passes the guard sends a payload whose keys are exactly
  \<open>text\<close> and \<open>voice\<close> when the engine is the empty string, and \<open>text\<close>, \<open>voice\<close> and
  \<open>engine\<close> when it is not; the values are the state's, and an empty engine is never
  sent.
\<close>

theorem payload_keys:
  "truthy (canGo s) \<Longrightarrow>
   \<exists>p. snd (synth s now out) = Some p
     \<and> map fst p = (if engine s = [] then [''text'', ''voice''] else [''text'', ''voice'', ''engine''])
     \<and> map_of p ''text'' = Some (text s)
     \<and> map_of p ''voice'' = Some (voice s)
     \<and> map_of p ''engine'' = (if engine s = [] then None else Some (engine s))
     \<and> (''engine'', []) \<notin> set p"
  by (simp add: synth_allowed build_payload_def)

theorem payload_keys_witness:
  "snd (synth (init\<lparr>text := js ''Hello'', voice := js ''Joanna''\<rparr>) 0
          (Replied True (Some (js ''https://x/a.mp3'')) None))
   = Some [(''text'', js ''Hello''), (''voice'', js ''Joanna'')]
   \<and> snd (synth (init\<lparr>text := js ''Hello'', voice := js ''Joanna'', engine := js ''neural''\<rparr>) 0
          (Replied True (Some (js ''https://x/a.mp3'')) None))
   = Some [(''text'', js ''Hello''), (''voice'', js ''Joanna''), (''engine'', js ''neural'')]"
  using payload_keys [of "init\<lparr>text := js ''Hello'', voice := js ''Joanna''\<rparr>" 0
          "Replied True (Some (js ''https://x/a.mp3'')) None"]
    payload_keys [of "init\<lparr>text := js ''Hello'', voice := js ''Joanna'', engine := js ''neural''\<rparr>" 0
          "Replied True (Some (js ''https://x/a.mp3'')) None"]
  by (simp add: truthy_canGo synth_def synth_begin_def build_payload_def init_def js_def
        MAX_CHARS_def trim_def is_ws_def)

text \<open>
  C9. With a text of exactly \<open>MAX_CHARS\<close> code units that is not all whitespace, a
  voice selected and not busy, \<open>canGo\<close> is truthy and \<open>synth\<close> sends the request; with
  \<open>MAX_CHARS + 1\<close> code units \<open>canGo\<close> is falsy and \<open>synth\<close> returns at its guard: no
  request is sent and the state is unchanged.
\<close>

theorem max_chars_boundary:
  "(length (text s) = MAX_CHARS \<and> trim (text s) \<noteq> [] \<and> voice s \<noteq> [] \<and> \<not> busy s
      \<longrightarrow> truthy (canGo s) \<and> snd (synth s now out) = Some (build_payload s))
   \<and> (length (text s) = MAX_CHARS + 1
      \<longrightarrow> \<not> truthy (canGo s) \<and> synth_begin s = None \<and> synth s now out = (s, None))"
  by (auto simp: truthy_canGo synth_allowed synth_blocked synth_begin_def)

theorem max_chars_boundary_witness:
  "truthy (canGo (init\<lparr>text := replicate 3000 97, voice := js ''Joanna''\<rparr>))
   \<and> snd (synth (init\<lparr>text := replicate 3000 97, voice := js ''Joanna''\<rparr>) 0 (Threw []))
       = Some [(''text'', replicate 3000 97), (''voice'', js ''Joanna'')]
   \<and> \<not> truthy (canGo (init\<lparr>text := replicate 3001 97, voice := js ''Joanna''\<rparr>))
   \<and> synth (init\<lparr>text := replicate 3001 97, voice := js ''Joanna''\<rparr>) 0 (Threw [])
       = (init\<lparr>text := replicate 3001 97, voice := js ''Joanna''\<rparr>, None)"
proof -
  have ws: "\<not> is_ws 97" by (simp add: is_ws_def)
  have t: "trim (replicate 3000 97) \<noteq> []" using ws by (simp add: trim_replicate)
  show ?thesis
    using max_chars_boundary [of "init\<lparr>text := replicate 3000 97, voice := js ''Joanna''\<rparr>" 0 "Threw []"]
      max_chars_boundary [of "init\<lparr>text := replicate 3001 97, voice := js ''Joanna''\<rparr>" 0 "Threw []"] t
    by (simp add: init_def js_def MAX_CHARS_def build_payload_def)
qed

text \<open>
  C2. After \<open>setLanguage c\<close> with a non-empty code and the run of the effect: if some
  voice of the catalog has language code \<open>c\<close>, the selected voice is the id of a
  catalog voice with language code \<open>c\<close>; if none has, the effect is guarded by
  \<open>filteredVoices.length\<close> and does nothing, so voice and engine stay what they were.
\<close>

theorem setLanguage_repair:
  "c \<noteq> [] \<Longrightarrow>
   ((\<exists>v \<in> set (voices s). languageCode v = Some c) \<longrightarrow>
      (\<exists>v \<in> set (voices s). id_v v = voice (setLanguage c s) \<and> languageCode v = Some c))
   \<and> ((\<forall>v \<in> set (voices s). languageCode v \<noteq> Some c) \<longrightarrow>
      voice (setLanguage c s) = voice s \<and> engine (setLanguage c s) = engine s)"
proof (intro conjI impI)
  assume c: "c \<noteq> []" and ex: "\<exists>v \<in> set (voices s). languageCode v = Some c"
  from ex have "filter (\<lambda>v. languageCode v = Some c) (voices s) \<noteq> []"
    by (simp add: filter_empty_conv)
  then have ne: "filteredVoices (setLang c s) \<noteq> []"
    using c by (simp add: filteredVoices_setLang)
  from defaultVoiceEffect_member [OF ne]
  obtain v where "v \<in> set (filteredVoices (setLang c s))"
    and "id_v v = voice (defaultVoiceEffect (setLang c s))" by blast
  then show "\<exists>v \<in> set (voices s). id_v v = voice (setLanguage c s) \<and> languageCode v = Some c"
    using c by (auto simp: filteredVoices_setLang setLanguage_def)
next
  assume c: "c \<noteq> []" and no: "\<forall>v \<in> set (voices s). languageCode v \<noteq> Some c"
  then have "filteredVoices (setLang c s) = []"
    by (simp add: filteredVoices_setLang filter_empty_conv)
  then have "setLanguage c s = setLang c s"
    by (simp add: setLanguage_def defaultVoiceEffect_keeps)
  then show "voice (setLanguage c s) = voice s" and "engine (setLanguage c s) = engine s"
    by (simp_all add: setLang_def)
qed

theorem setLanguage_repair_witness:
  "voice (setLanguage (js ''fr-FR'') (loaded [Joanna, Celine])) = js ''Celine''
   \<and> voice (setLanguage (js ''de-DE'') (loaded [Joanna, Celine])) = js ''Joanna''
   \<and> engine (setLanguage (js ''de-DE'') (loaded [Joanna, Celine])) = js ''neural''"
  using setLanguage_repair [of "js ''fr-FR''" "loaded [Joanna, Celine]"]
    setLanguage_repair [of "js ''de-DE''" "loaded [Joanna, Celine]"]
  by (simp add: ex_defs)

text \<open>
  C2 as stated fails for the catalog with the one voice Joanna (en-US), selected with
  engine neural, at \<open>setLanguage("fr-FR")\<close>: no voice has that language code, and
  the selection is still Joanna with neural, not empty. It also fails at the empty
  code: with the one voice Celine (fr-FR) in the catalog and nothing selected,
  \<open>setLanguage("")\<close> selects Celine, whose language code is not the empty string.
\<close>

theorem setLanguage_stale_counterexample:
  "map languageCode (voices (loaded [Joanna])) = [Some (js ''en-US'')]
   \<and> js ''en-US'' \<noteq> js ''fr-FR''
   \<and> voice (setLanguage (js ''fr-FR'') (loaded [Joanna])) = js ''Joanna''
   \<and> engine (setLanguage (js ''fr-FR'') (loaded [Joanna])) = js ''neural''
   \<and> js ''Joanna'' \<noteq> [] \<and> js ''neural'' \<noteq> []
   \<and> voice (setLanguage [] (init\<lparr>voices := [Celine]\<rparr>)) = js ''Celine''
   \<and> map languageCode (voices (setLanguage [] (init\<lparr>voices := [Celine]\<rparr>))) = [Some (js ''fr-FR'')]
   \<and> js ''fr-FR'' \<noteq> []"
  by (simp add: ex_defs)

text \<open>
  C10. While \<open>lang\<close> is the empty string, \<open>filteredVoices\<close> is the whole catalog, not
  the empty list; the effect then selects the first voice of the catalog, whatever its
  language, when no voice is selected or the selected id is not in the catalog.
\<close>

theorem empty_lang_selects_first:
  "lang s = [] \<Longrightarrow>
   filteredVoices s = voices s
   \<and> (voices s = v0 # vs \<and> (voice s = [] \<or> voice s \<notin> id_v ` set (voices s)) \<longrightarrow>
        voice (defaultVoiceEffect s) = id_v v0
        \<and> engine (defaultVoiceEffect s) = (if includes_neural v0 then js ''neural'' else []))"
proof (intro conjI impI)
  assume l: "lang s = []"
  then show fv: "filteredVoices s = voices s" by (simp add: filteredVoices_def)
  assume h: "voices s = v0 # vs \<and> (voice s = [] \<or> voice s \<notin> id_v ` set (voices s))"
  then have "voice s = [] \<or> find (\<lambda>v. id_v v = voice s) (filteredVoices s) = None"
    using fv by (auto simp: find_id_None)
  then have "defaultVoiceEffect s
      = s\<lparr>voice := id_v v0, engine := (if includes_neural v0 then js ''neural'' else [])\<rparr>"
    using h fv by (simp add: defaultVoiceEffect_def)
  then show "voice (defaultVoiceEffect s) = id_v v0"
    and "engine (defaultVoiceEffect s) = (if includes_neural v0 then js ''neural'' else [])"
    by simp_all
qed

theorem empty_lang_selects_first_witness:
  "lang (init\<lparr>voices := [Celine, Joanna]\<rparr>) = []
   \<and> filteredVoices (init\<lparr>voices := [Celine, Joanna]\<rparr>) = [Celine, Joanna]
   \<and> voice (defaultVoiceEffect (init\<lparr>voices := [Celine, Joanna]\<rparr>)) = js ''Celine''
   \<and> languageCode Celine = Some (js ''fr-FR'')"
  using empty_lang_selects_first [of "init\<lparr>voices := [Celine, Joanna]\<rparr>" Celine "[Joanna]"]
  by (simp add: init_def Celine_def)

text \<open>
  C3. The claim fails on the code. A catalog of two US English voices arrives, Joanna
  (standard and neural) and Joey (standard only): the effect selects Joanna with engine
  neural. The user then picks Joey in the voice select. Joey is in the filtered list,
  so the effect changes nothing: the engine is still neural, although Joey does not
  support it and the engine select no longer offers it, and the next request carries
  \<open>engine: "neural"\<close>.
\<close>

theorem neural_survives_voice_override:
  "voice (cur (run ordinal_cmp override_trace mount)) = js ''Joey''
   \<and> engine (cur (run ordinal_cmp override_trace mount)) = js ''neural''
   \<and> filteredVoices (cur (run ordinal_cmp override_trace mount)) = [Joanna, Joey]
   \<and> supportedEngines Joey = Some [js ''standard'']
   \<and> \<not> includes_neural Joey
   \<and> \<not> neural_offered (cur (run ordinal_cmp override_trace mount))
   \<and> build_payload (cur (run ordinal_cmp (override_trace @ [ChangeText (js ''Hello'')]) mount))
       = [(''text'', js ''Hello''), (''voice'', js ''Joey''), (''engine'', js ''neural'')]"
  by (simp add: override_trace_def neural_offered_def build_payload_def ex_defs)







text \<open>
  C4. After any sequence of events from the mounted component the history has at most
  6 entries; and when a pending synthesis settles with a success, the history becomes
  the new entry (the url of the reply, the voice, language and engine of the render that
  submitted, the time) put in front of the old history and cut to its first 6 elements,
  so that \<open>history[0]\<close> is the entry of the synthesis that has just completed.
\<close>

theorem history_newest_first_bounded:
  "length (history (cur (run cmp evs mount))) \<le> 6
   \<and> (pending a = Some c \<and> u \<noteq> [] \<longrightarrow>
        history (cur (step cmp (Settled now (Replied True (Some u) e)) a))
          = take 6 (\<lparr>h_url = u, h_voice = voice c, h_ts = now, h_lang = lang c,
                      h_engine = engine c\<rparr> # history (cur a))
        \<and> history (cur (step cmp (Settled now (Replied True (Some u) e)) a)) ! 0
          = \<lparr>h_url = u, h_voice = voice c, h_ts = now, h_lang = lang c, h_engine = engine c\<rparr>)"
proof -
  have "length (history (cur mount)) \<le> 6"
    by (simp add: mount_def init_def)
  then have "length (history (cur (run cmp evs mount))) \<le> 6"
    by (rule history_run_bound)
  then show ?thesis
    by (simp add: history_synth_settle_success)
qed

theorem history_newest_first_bounded_witness:
  "history (cur (run ordinal_cmp hello_trace mount))
     = [\<lparr>h_url = js ''https://x/a.mp3'', h_voice = js ''Joanna'', h_ts = 1700000000000,
          h_lang = js ''en-US'', h_engine = js ''neural''\<rparr>]
   \<and> length (history (cur (run ordinal_cmp hello_trace mount))) \<le> 6
   \<and> pending (run ordinal_cmp (butlast hello_trace) mount) \<noteq> None"
proof -
  have b: "run ordinal_cmp (butlast hello_trace) mount
      = \<lparr>cur = (loaded [Joanna])\<lparr>text := js ''Hello'', busy := True, error := [], audioUrl := []\<rparr>,
         pending = Some ((loaded [Joanna])\<lparr>text := js ''Hello''\<rparr>)\<rparr>"
    by (simp add: hello_trace_def synth_begin_def truthy_canGo MAX_CHARS_def trim_def is_ws_def
        ex_defs)
  have r: "run ordinal_cmp hello_trace mount
      = step ordinal_cmp (Settled 1700000000000 (Replied True (Some (js ''https://x/a.mp3'')) None))
          (run ordinal_cmp (butlast hello_trace) mount)"
    by (simp add: hello_trace_def run_def)
  have u: "js ''https://x/a.mp3'' \<noteq> []" by (simp add: js_eq_Nil)
  show ?thesis
    using history_newest_first_bounded [of ordinal_cmp hello_trace
        "run ordinal_cmp (butlast hello_trace) mount" "(loaded [Joanna])\<lparr>text := js ''Hello''\<rparr>"
        "js ''https://x/a.mp3''" 1700000000000 None] u
    unfolding r [symmetric] by (simp add: b) (simp add: ex_defs)
qed

end
